theory Spec2Isabelle
  imports Main "HOL-Library.Word"
begin

unbundle bit_operations_syntax

text \<open>
  The exponential ziggurat sampler \<open>ExpFloat64\<close> of the package \<open>rand\<close> (math\_exp.go)
  with its three tables, over a model of Go's \<open>float64\<close> arithmetic, and the operations
  of the generator that the test files exercise.  Definitions come first; the
  properties follow from the section on evaluating the model onwards.
\<close>

section \<open>IEEE 754 binary64 values\<close>

text \<open>
  Go's \<open>float64\<close>.  A finite value \<open>Finite m e\<close> denotes \<open>m * 2 ^ e\<close> and is kept in the
  shape of the binary64 format: a normal number has \<open>2 ^ 52 \<le> \<bar>m\<bar> < 2 ^ 53\<close> and
  \<open>- 1074 \<le> e \<le> 971\<close>, a subnormal number (and zero) has \<open>\<bar>m\<bar> < 2 ^ 52\<close> and
  \<open>e = - 1074\<close>.  The arithmetic below ends in \<open>f64_round_frac\<close>, which rounds to this
  shape (\<open>f64_format\<close>; \<open>fe_format\<close> checks it on the constants of \<open>fe\<close>), so that two
  finite results are equal terms when they are equal numbers.
  The two zeros are identified: \<open>ExpFloat64\<close> never divides and Go's \<open><\<close> does not
  tell them apart.
\<close>

datatype float64 = Finite int int | PInf | NInf | NaN

text \<open>Number of binary digits of a positive integer.\<close>

function bitlen :: "int \<Rightarrow> int" where
  "bitlen n = (if n \<le> 0 then 0 else 1 + bitlen (n div 2))"
  by pat_completeness auto
termination
  by (relation "measure nat") auto

declare bitlen.simps [simp del]

definition scale_le :: "int \<Rightarrow> int \<Rightarrow> int \<Rightarrow> bool" where
  \<comment> \<open>\<open>d * 2 ^ e \<le> a\<close> for an integer exponent of either sign\<close>
  "scale_le d e a = (if 0 \<le> e then d * 2 ^ nat e \<le> a else d \<le> a * 2 ^ nat (- e))"

definition ilog2_fix :: "int \<Rightarrow> int \<Rightarrow> int \<Rightarrow> int" where
  "ilog2_fix a d e0 = (if scale_le d e0 a then e0 else e0 - 1)"

definition ilog2_frac :: "int \<Rightarrow> int \<Rightarrow> int" where
  \<comment> \<open>the binary exponent of \<open>a / d\<close> (both positive): \<open>2 ^ e \<le> a / d < 2 ^ (e + 1)\<close>\<close>
  "ilog2_frac a d = ilog2_fix a d (bitlen a - bitlen d)"

definition ties_even :: "int \<Rightarrow> int \<Rightarrow> int \<Rightarrow> int" where
  "ties_even q r d =
     (if 2 * r < d then q else if d < 2 * r then q + 1 else if even q then q else q + 1)"

definition round_half_even_div :: "int \<Rightarrow> int \<Rightarrow> int" where
  \<comment> \<open>\<open>n / d\<close> rounded to the nearest integer, ties to the even one\<close>
  "round_half_even_div n d = ties_even (n div d) (n mod d) d"

definition f64_finish :: "int \<Rightarrow> int \<Rightarrow> int \<Rightarrow> float64" where
  \<comment> \<open>overflow to an infinity beyond the largest exponent\<close>
  "f64_finish s m ex = (if 971 < ex then (if 0 < s then PInf else NInf) else Finite (s * m) ex)"

definition f64_carry :: "int \<Rightarrow> int \<Rightarrow> int \<Rightarrow> float64" where
  \<comment> \<open>a mantissa rounded up to \<open>2 ^ 53\<close> moves to the next exponent\<close>
  "f64_carry s m ex = (if m = 2 ^ 53 then f64_finish s (2 ^ 52) (ex + 1) else f64_finish s m ex)"

definition f64_round_at :: "int \<Rightarrow> int \<Rightarrow> int \<Rightarrow> int \<Rightarrow> float64" where
  \<comment> \<open>\<open>a / d\<close> rounded to a multiple of \<open>2 ^ ex\<close>, with sign \<open>s\<close>\<close>
  "f64_round_at s a d ex =
     f64_carry s (if ex \<le> 0 then round_half_even_div (a * 2 ^ nat (- ex)) d
                  else round_half_even_div a (d * 2 ^ nat ex)) ex"

definition f64_round_frac :: "int \<Rightarrow> int \<Rightarrow> float64" where
  \<comment> \<open>the fraction \<open>n / d\<close> (\<open>0 < d\<close>) rounded to the nearest binary64, ties to even\<close>
  "f64_round_frac n d =
     (if n = 0 then Finite 0 (- 1074)
      else f64_round_at (sgn n) \<bar>n\<bar> d (max (ilog2_frac \<bar>n\<bar> d - 52) (- 1074)))"

definition f64_round_dyadic :: "int \<Rightarrow> int \<Rightarrow> float64" where
  \<comment> \<open>\<open>m * 2 ^ e\<close> rounded to binary64\<close>
  "f64_round_dyadic m e =
     (if 0 \<le> e then f64_round_frac (m * 2 ^ nat e) 1 else f64_round_frac m (2 ^ nat (- e)))"

definition f64_dec :: "int \<Rightarrow> nat \<Rightarrow> float64" where
  \<comment> \<open>a decimal constant of the source: \<open>f64_dec n k\<close> is the binary64 nearest to
      \<open>n / 10 ^ k\<close>, as the Go compiler converts an untyped constant to \<open>float64\<close>\<close>
  "f64_dec n k = f64_round_frac n (10 ^ k)"

definition float64_of_uint64 :: "64 word \<Rightarrow> float64" where
  \<comment> \<open>the conversion \<open>float64(j)\<close>\<close>
  "float64_of_uint64 j = f64_round_frac (uint j) 1"

fun f64_neg :: "float64 \<Rightarrow> float64" where
  "f64_neg (Finite m e) = Finite (- m) e"
| "f64_neg PInf = NInf"
| "f64_neg NInf = PInf"
| "f64_neg NaN = NaN"

fun f64_add :: "float64 \<Rightarrow> float64 \<Rightarrow> float64" where
  "f64_add (Finite m1 e1) (Finite m2 e2) =
     f64_round_dyadic (m1 * 2 ^ nat (e1 - min e1 e2) + m2 * 2 ^ nat (e2 - min e1 e2)) (min e1 e2)"
| "f64_add NaN _ = NaN"
| "f64_add _ NaN = NaN"
| "f64_add PInf NInf = NaN"
| "f64_add NInf PInf = NaN"
| "f64_add PInf _ = PInf"
| "f64_add _ PInf = PInf"
| "f64_add NInf _ = NInf"
| "f64_add _ NInf = NInf"

definition f64_sub :: "float64 \<Rightarrow> float64 \<Rightarrow> float64" where
  "f64_sub a b = f64_add a (f64_neg b)"

fun f64_sgn :: "float64 \<Rightarrow> int" where
  "f64_sgn (Finite m e) = sgn m"
| "f64_sgn PInf = 1"
| "f64_sgn NInf = - 1"
| "f64_sgn NaN = 0"

fun f64_mul :: "float64 \<Rightarrow> float64 \<Rightarrow> float64" where
  "f64_mul (Finite m1 e1) (Finite m2 e2) = f64_round_dyadic (m1 * m2) (e1 + e2)"
| "f64_mul NaN _ = NaN"
| "f64_mul _ NaN = NaN"
| "f64_mul a b =
     (if f64_sgn a * f64_sgn b = 0 then NaN else if 0 < f64_sgn a * f64_sgn b then PInf else NInf)"

fun f64_lt :: "float64 \<Rightarrow> float64 \<Rightarrow> bool" where
  "f64_lt (Finite m1 e1) (Finite m2 e2) =
     (m1 * 2 ^ nat (e1 - min e1 e2) < m2 * 2 ^ nat (e2 - min e1 e2))"
| "f64_lt NaN _ = False"
| "f64_lt _ NaN = False"
| "f64_lt _ NInf = False"
| "f64_lt PInf _ = False"
| "f64_lt NInf _ = True"
| "f64_lt _ PInf = True"

definition f64_zero :: float64 where
  "f64_zero = Finite 0 (- 1074)"

text \<open>The shape of a binary64 value, as described above.\<close>

fun f64_format :: "float64 \<Rightarrow> bool" where
  "f64_format (Finite m e) =
     (- 1074 \<le> e \<and> e \<le> 971 \<and> \<bar>m\<bar> < 2 ^ 53 \<and> (2 ^ 52 \<le> \<bar>m\<bar> \<or> e = - 1074))"
| "f64_format _ = False"

section \<open>The exponential ziggurat (math\_exp.go)\<close>

text \<open>The tail constant \<open>re = 7.69711747013104972\<close>.\<close>

definition re :: float64 where
  "re = f64_dec 769711747013104972 17"

text \<open>
  The three tables \<open>ke\<close>, \<open>we\<close> and \<open>fe\<close>, 256 entries each, in the order of the source.
  A decimal constant \<open>9.655740063209187e-16\<close> is written \<open>f64_dec 9655740063209187 31\<close>
  (the digits, and the number of decimal places after the shift by the exponent).
\<close>

definition ke :: "64 word list" where
  "ke =
  [0x1c5214272497c5, 0x0, 0x137d5bd79c3125, 0x186ef58e3f3bf1, 0x1a9bb7320eb09b,
   0x1bd127f7194472, 0x1c951d0f886513, 0x1d1bfe2d5c3970, 0x1d7e5bd56b18b2, 0x1dc934dd172c6e,
   0x1e0409dfac9dc8, 0x1e337b71d47835, 0x1e5a8b177cb7a0, 0x1e7b42096f046d, 0x1e970daf08ae3c,
   0x1eaef5b14ef09e, 0x1ec3bd07b46557, 0x1ed5f6f08799cd, 0x1ee614ae6e5689, 0x1ef46eca361ccf,
   0x1f014b76ddd4a3, 0x1f0ce313a796b6, 0x1f176369f1f779, 0x1f20f20c452571, 0x1f29ae1951a875,
   0x1f31b18fb95533, 0x1f39125157c107, 0x1f3fe2eb6e694c, 0x1f463332d788fb, 0x1f4c10bf1d3a11,
   0x1f51874c5c3323, 0x1f56a109c3ecc1, 0x1f5b66d9099995, 0x1f5fe08210d08c, 0x1f6414dd445772,
   0x1f6809f685967a, 0x1f6bc52a2b02e7, 0x1f6f4b3d32e4f4, 0x1f72a07190f139, 0x1f75c8974d09d9,
   0x1f78c71b045cc0, 0x1f7b9f12413ff5, 0x1f7e5346079f8a, 0x1f80e63be21138, 0x1f835a3dad9163,
   0x1f85b16056b913, 0x1f87ed89b24263, 0x1f8a10759374fc, 0x1f8c1bba3d39ad, 0x1f8e10cc45d04b,
   0x1f8ff102013e16, 0x1f91bd968358e2, 0x1f9377ac47afd7, 0x1f95204f8b64db, 0x1f96b878633894,
   0x1f98410c968891, 0x1f99bae146ba83, 0x1f9b26bc697f01, 0x1f9c85561b717a, 0x1f9dd759cfd804,
   0x1f9f1d6761a1cf, 0x1fa058140936c0, 0x1fa187eb3a333a, 0x1fa2ad6f6bc4fc, 0x1fa3c91ace0683,
   0x1fa4db5fee6aa3, 0x1fa5e4aa4d0980, 0x1fa6e55ee46783, 0x1fa7dddca51ec5, 0x1fa8ce7ce6a876,
   0x1fa9b793ce5fef, 0x1faa9970adb858, 0x1fab745e588233, 0x1fac48a3740585, 0x1fad1682bf9feb,
   0x1fadde3b5782c0, 0x1faea008f21d6c, 0x1faf5c2418b07f, 0x1fb012c25b7a15, 0x1fb0c41681dff3,
   0x1fb17050b6f1fa, 0x1fb2179eb2963b, 0x1fb2ba2bdfa84b, 0x1fb358217f4e19, 0x1fb3f1a6c9be0d,
   0x1fb486e10cacd7, 0x1fb517f3c793fc, 0x1fb5a500c5fdaa, 0x1fb62e2837fe5a, 0x1fb6b388c9010b,
   0x1fb7353fb50798, 0x1fb7b368dc7da9, 0x1fb82e1ed6ba0a, 0x1fb8a57b0347f6, 0x1fb919959a0f74,
   0x1fb98a85ba7204, 0x1fb9f861796f26, 0x1fba633deee287, 0x1fbacb2f41ec17, 0x1fbb3048b49146,
   0x1fbb929caea4e4, 0x1fbbf23cc8029d, 0x1fbc4f39d22996, 0x1fbca9a3e140d5, 0x1fbd018a548fa0,
   0x1fbd56fbde729c, 0x1fbdaa068bd66c, 0x1fbdfab7cb3f42, 0x1fbe491c7364de, 0x1fbe9540c96960,
   0x1fbedf3086b129, 0x1fbf26f6de6176, 0x1fbf6c9e828ae4, 0x1fbfb031a904c6, 0x1fbff1ba0ffdb1,
   0x1fc03141024589, 0x1fc06ecf5b54b3, 0x1fc0aa6d8b1428, 0x1fc0e42399698b, 0x1fc11bf9298a65,
   0x1fc151f57d1944, 0x1fc1861f770f4b, 0x1fc1b87d9e74b4, 0x1fc1e91620ea43, 0x1fc217eed505de,
   0x1fc2450d3c8400, 0x1fc27076864fc2, 0x1fc29a2f906310, 0x1fc2c23ce98045, 0x1fc2e8a2d2c6b5,
   0x1fc30d654122ef, 0x1fc33087de9c0f, 0x1fc3520e0b7ec9, 0x1fc371fadf66f8, 0x1fc390512a2887,
   0x1fc3ad137497fa, 0x1fc3c844013349, 0x1fc3e1e4ccab40, 0x1fc3f9f78e4da8, 0x1fc4107db85061,
   0x1fc4257877fd69, 0x1fc438e8b5bfc7, 0x1fc44acf15112a, 0x1fc45b2bf447e9, 0x1fc469ff6c4505,
   0x1fc477495001b3, 0x1fc483092bfbba, 0x1fc48d3e457ff7, 0x1fc495e799d21b, 0x1fc49d03dd30b2,
   0x1fc4a29179b434, 0x1fc4a68e8e07fc, 0x1fc4a8f8ebfb8d, 0x1fc4a9ce16eaa0, 0x1fc4a90b41fa35,
   0x1fc4a6ad4e28a1, 0x1fc4a2b0c82e76, 0x1fc49d11e62de3, 0x1fc495cc852df4, 0x1fc48cdc265ec1,
   0x1fc4823bec237a, 0x1fc475e696dee7, 0x1fc467d6817e83, 0x1fc458059dc038, 0x1fc4466d702e22,
   0x1fc433070bcb9a, 0x1fc41dcb0d6e0e, 0x1fc406b196bbf7, 0x1fc3edb248cb62, 0x1fc3d2c43e593d,
   0x1fc3b5de0591b5, 0x1fc396f599614b, 0x1fc376005a4592, 0x1fc352f3069372, 0x1fc32dc1b2281b,
   0x1fc3065fbd7888, 0x1fc2dcbfcbf264, 0x1fc2b0d3b99f9e, 0x1fc2828c8ffcf0, 0x1fc251da79f164,
   0x1fc21eacb6d39e, 0x1fc1e8f18c6757, 0x1fc1b09637bb3d, 0x1fc17586dccd11, 0x1fc137ae74d6b8,
   0x1fc0f6f6bb2416, 0x1fc0b348184da4, 0x1fc06c898baff1, 0x1fc022a092f365, 0x1fbfd5710f72b8,
   0x1fbf84dd294890, 0x1fbf30c52fc60d, 0x1fbed907770cc6, 0x1fbe7d80327ddc, 0x1fbe1e094ba615,
   0x1fbdba7a354408, 0x1fbd52a7b9f826, 0x1fbce663c6201b, 0x1fbc757d2c4de5, 0x1fbbffbf63b7aa,
   0x1fbb84f23fe6a2, 0x1fbb04d9a0d18e, 0x1fba7f351a70ad, 0x1fb9f3bf92b61a, 0x1fb9622ed4abfc,
   0x1fb8ca33174a18, 0x1fb82b76765b54, 0x1fb7859c5b895d, 0x1fb6d840d55594, 0x1fb622f7d96943,
   0x1fb5654c6f37e2, 0x1fb49ebfbf69d3, 0x1fb3cec803e747, 0x1fb2f4cf539c40, 0x1fb21032442854,
   0x1fb1203e5a9605, 0x1fb0243042e1c3, 0x1faf1b31c479a7, 0x1fae045767e106, 0x1facde9dbf2d73,
   0x1faba8e640060b, 0x1faa61f399ff29, 0x1fa908656f66a2, 0x1fa79ab3508d3d, 0x1fa61726d1f215,
   0x1fa47bd48bea00, 0x1fa2c693c5c095, 0x1fa0f4f47df316, 0x1f9f04336bbe0b, 0x1f9cf12b79f9bd,
   0x1f9ab84415abc5, 0x1f98555b782fb9, 0x1f95c3abd03f7a, 0x1f92fda9cef1f3, 0x1f8ffcda9ae41d,
   0x1f8cb99e7385f8, 0x1f892aec479608, 0x1f8545f904db90, 0x1f80fdc336039b, 0x1f7c427839e926,
   0x1f7700a3582ace, 0x1f71200f1a241d, 0x1f6a8234b7352c, 0x1f630000a8e267, 0x1f5a66904fe3c6,
   0x1f50724ece1173, 0x1f44c7665c6fdb, 0x1f36e5a38a59a4, 0x1f26143450340b, 0x1f113e047b0414,
   0x1ef6aefa57cbe7, 0x1ed38ca188151e, 0x1ea2a61e122db1, 0x1e5961c78b267d, 0x1dddf62bac0bb1,
   0x1cdb4dd9e4e8c0]"

definition we :: "float64 list" where
  "we =
  [f64_dec 9655740063209187 31, f64_dec 7089014243955202 33, f64_dec 11639412496691068 33,
   f64_dec 15243915123532025 33, f64_dec 18332848857237325 33, f64_dec 2108965109464476 32,
   f64_dec 2361128077843129 32, f64_dec 2595595772310885 32, f64_dec 2816173554197743 32,
   f64_dec 3025504130321374 32, f64_dec 32255082548363667 33, f64_dec 3417632340185019 32,
   f64_dec 3602996978734446 32, f64_dec 37824907768696417 33, f64_dec 39568321980975465 33,
   f64_dec 41266117781759396 33, f64_dec 4292321808442518 32, f64_dec 44543777432823646 33,
   f64_dec 4613133981483179 32, f64_dec 4768895725264629 32, f64_dec 49219280437279567 33,
   f64_dec 5072462904503141 32, f64_dec 5220704702792667 32, f64_dec 5366834661718187 32,
   f64_dec 5511014372835089 32, f64_dec 5653388673239661 32, f64_dec 579408800485276 31,
   f64_dec 5933230365208937 32, f64_dec 6070922932847173 32, f64_dec 6207263431163186 32,
   f64_dec 6342341280303069 32, f64_dec 6476238575956133 32, f64_dec 6609030925769398 32,
   f64_dec 6740788167872715 32, f64_dec 6871574991183805 32, f64_dec 7001451473403922 32,
   f64_dec 7130473549660636 32, f64_dec 7258693422414641 32, f64_dec 7386159921381785 32,
   f64_dec 751291882072372 31, f64_dec 7639013119550817 32, f64_dec 7764483290797841 32,
   f64_dec 7889367502729783 32, f64_dec 8013701816675448 32, f64_dec 8137520364041755 32,
   f64_dec 8260855505210031 32, f64_dec 8383737972539132 32, f64_dec 8506196999385315 32,
   f64_dec 8628260436784104 32, f64_dec 8749954859216174 32, f64_dec 8871305660690245 32,
   f64_dec 8992337142215348 32, f64_dec 9113072591597902 32, f64_dec 9233534356381781 32,
   f64_dec 935374391064912 31, f64_dec 9473721916312942 32, f64_dec 9593488279457989 32,
   f64_dec 9713062202221511 32, f64_dec 9832462230649502 32, f64_dec 9951706298915062 32,
   f64_dec 1007081177024294 31, f64_dec 10189795474846932 32, f64_dec 10308673745154211 32,
   f64_dec 10427462448561878 32, f64_dec 10546177017945757 32, f64_dec 10664832480119141 32,
   f64_dec 10783443482419476 32, f64_dec 10902024317583496 32, f64_dec 11020588947055772 32,
   f64_dec 11139151022861965 32, f64_dec 11257723908165665 32, f64_dec 11376320696616837 32,
   f64_dec 11494954230590083 32, f64_dec 11613637118402173 32, f64_dec 11732381750590448 32,
   f64_dec 11851200315326687 32, f64_dec 11970104813034644 32, f64_dec 12089107070273848 32,
   f64_dec 12208218752947052 32, f64_dec 12327451378884145 32, f64_dec 1244681632985112 31,
   f64_dec 1256632486302898 31, f64_dec 12685988122003973 32, f64_dec 12805817147307491 32,
   f64_dec 1292582288654119 31, f64_dec 13046016204120286 32, f64_dec 13166407890665723 32,
   f64_dec 1328700867207381 31, f64_dec 13407829218289992 32, f64_dec 13528880151811752 32,
   f64_dec 13650172055943978 32, f64_dec 1377171548282881 31, f64_dec 13893520961270637 32,
   f64_dec 14015599004375713 32, f64_dec 1413796011702485 31, f64_dec 14260614803196652 32,
   f64_dec 14383573573157902 32, f64_dec 14506846950536877 32, f64_dec 14630445479294757 32,
   f64_dec 14754379730609514 32, f64_dec 14878660309686256 32, f64_dec 15003297862507367 32,
   f64_dec 15128303082535392 32, f64_dec 15253686717381255 32, f64_dec 15379459575449967 32,
   f64_dec 15505632532575771 32, f64_dec 15632216538658375 32, f64_dec 15759222624311761 32,
   f64_dec 15886661907536842 32, f64_dec 16014545600429167 32, f64_dec 16142885015932787 32,
   f64_dec 16271691574651303 32, f64_dec 16400976811727177 32, f64_dec 16530752383800364 32,
   f64_dec 16661030076057416 32, f64_dec 16791821809382284 32, f64_dec 1692313964762022 31,
   f64_dec 17054995804966296 32, f64_dec 17187402653490314 32, f64_dec 1732037273081008 31,
   f64_dec 17453918747925335 32, f64_dec 1758805359722491 31, f64_dec 1772279036068006 31,
   f64_dec 17858142318237321 32, f64_dec 17994122956424635 32, f64_dec 18130745977185013 32,
   f64_dec 1826802530695252 31, f64_dec 18405975105985876 32, f64_dec 18544609777975695 32,
   f64_dec 18683943979941927 32, f64_dec 18823992632438918 32, f64_dec 18964770930086165 32,
   f64_dec 1910629435244376 31, f64_dec 19248578675252436 32, f64_dec 19391639982058992 32,
   f64_dec 1953549467624909 31, f64_dec 19680159493510374 32, f64_dec 1982565151475019 31,
   f64_dec 1997198817949342 31, f64_dec 20119187299787347 32, f64_dec 20267267074641983 32,
   f64_dec 20416246105035888 32, f64_dec 20566143409519179 32, f64_dec 2071697844044737 31,
   f64_dec 20868771100881597 32, f64_dec 21021541762192925 32, f64_dec 21175311282410757 32,
   f64_dec 21330101025357788 32, f64_dec 2148593288061663 31, f64_dec 21642829284376045 32,
   f64_dec 21800813241207835 32, f64_dec 21959908346828702 32, f64_dec 22120138811904954 32,
   f64_dec 222815294869618 30, f64_dec 22444105888463076 32, f64_dec 22607894226131728 32,
   f64_dec 227729214315862 30, f64_dec 22939215188373104 32, f64_dec 2310680396348213 31,
   f64_dec 2327571704043534 31, f64_dec 23445984554049574 32, f64_dec 23617637526977735 32,
   f64_dec 2379070790814276 31, f64_dec 2396522861318623 31, f64_dec 24141233567062923 32,
   f64_dec 2431875774892255 31, f64_dec 24497837239430697 32, f64_dec 2467850927069288 31,
   f64_dec 2486081227895851 31, f64_dec 2504478596029556 31, f64_dec 2523047132944216 31,
   f64_dec 25417910782058117 32, f64_dec 2560714816061771 31, f64_dec 2579822882420531 31,
   f64_dec 25991199722497464 32, f64_dec 2618610947423924 31, f64_dec 26383008450549423 32,
   f64_dec 2658194886341845 31, f64_dec 26782984859795257 32, f64_dec 26986172621694894 32,
   f64_dec 2719157047279819 31, f64_dec 27399238992058153 32, f64_dec 2760924113487617 31,
   f64_dec 2782164236246436 31, f64_dec 28036510780069835 32, f64_dec 2825391728480253 31,
   f64_dec 2847393572388174 31, f64_dec 28696643064198177 32, f64_dec 28922119574179956 32,
   f64_dec 29150449019052937 32, f64_dec 29381718870700286 32, f64_dec 29616020533454657 32,
   f64_dec 29853449587300453 32, f64_dec 3009410605012618 31, f64_dec 3033809466085003 31,
   f64_dec 30585525185448604 32, f64_dec 308365127481531 30, f64_dec 31091178190342663 32,
   f64_dec 31349648459966636 32, f64_dec 3161205703467106 31, f64_dec 31878544382197136 32,
   f64_dec 3214925846206798 31, f64_dec 3242435527309452 31, f64_dec 3270399945182241 31,
   f64_dec 32988364927722836 32, f64_dec 3327763564171672 31, f64_dec 33572006335532446 32,
   f64_dec 3387168342045505 31, f64_dec 3417688593525637 31, f64_dec 34487846604534244 32,
   f64_dec 34804813010374423 32, f64_dec 35128048892229794 32, f64_dec 3545783559224792 31,
   f64_dec 35794473666042765 32, f64_dec 36138284682190606 32, f64_dec 36489613237645425 32,
   f64_dec 3684882922095621 31, f64_dec 37216330360802073 32, f64_dec 3759254510416256 31,
   f64_dec 37977935876688744 32, f64_dec 38373002787892137 32, f64_dec 38778287856078953 32,
   f64_dec 3919437984311429 31, f64_dec 3962191980786775 31, f64_dec 40061607510565417 32,
   f64_dec 4051420882956573 31, f64_dec 40980564389030625 32, f64_dec 41461599642909046 32,
   f64_dec 4195833672073399 31, f64_dec 4247190841824385 31, f64_dec 43003574816674707 32,
   f64_dec 4355474314693952 31, f64_dec 44126991690360704 32, f64_dec 4472209874259932 31,
   f64_dec 4534207798565834 31, f64_dec 4598922204905932 31, f64_dec 4666615664711476 31,
   f64_dec 4737590853262492 31, f64_dec 4812199172829238 31, f64_dec 489085182739221 30,
   f64_dec 497403423619194 30, f64_dec 506232507214416 30, f64_dec 5156421828878083 31,
   f64_dec 5257175802022275 31, f64_dec 5365640977112021 31, f64_dec 5483144034258703 31,
   f64_dec 5611387454675159 31, f64_dec 5752606481503331 31, f64_dec 5909817641652101 31,
   f64_dec 6087231416180907 31, f64_dec 6290979034877556 31, f64_dec 653049205356404 30,
   f64_dec 6821393079028929 31, f64_dec 7192444966089362 31, f64_dec 7706095350032097 31,
   f64_dec 8545517038584027 31]"

text \<open>
  \<open>fe\<close> is laid out in eight blocks of 32 entries, \<open>fe = fe_0 @ \<dots> @ fe_7\<close>, so that the
  conversion of its constants can be checked block by block.
\<close>

definition fe_0 :: "float64 list" where
  "fe_0 =
  [f64_dec 1 0, f64_dec 9381436808621765 16, f64_dec 9004699299257477 16,
   f64_dec 8717043323812047 16, f64_dec 8477855006239905 16, f64_dec 8269932966430511 16,
   f64_dec 808421651523009 15, f64_dec 7915276369724963 16, f64_dec 7759568520401162 16,
   f64_dec 7614633888498968 16, f64_dec 7478686219851957 16, f64_dec 735038092431424 15,
   f64_dec 7228676595935725 16, f64_dec 7112747608050765 16, f64_dec 7001926550827886 16,
   f64_dec 6895664961170784 16, f64_dec 6793505722647658 16, f64_dec 6695063167319252 16,
   f64_dec 6600008410790001 16, f64_dec 6508058334145714 16, f64_dec 6418967164272664 16,
   f64_dec 6332519942143664 16, f64_dec 6248527387036662 16, f64_dec 6166821809152079 16,
   f64_dec 6087253820796223 16, f64_dec 6009689663652326 16, f64_dec 5934009016917338 16,
   f64_dec 5860103184772684 16, f64_dec 5787873586028454 16, f64_dec 5717230486648262 16,
   f64_dec 5648091929124006 16, f64_dec 5580382822625879 16]"

definition fe_1 :: "float64 list" where
  "fe_1 =
  [f64_dec 5514034165406417 16, f64_dec 5448982376724401 16, f64_dec 5385168720028622 16,
   f64_dec 5322538802630437 16, f64_dec 5261042139836201 16, f64_dec 5200631773682339 16,
   f64_dec 5141263938147489 16, f64_dec 5082897764106432 16, f64_dec 5025495018413481 16,
   f64_dec 4969019872415499 16, f64_dec 49134386959403287 17, f64_dec 48587198734188525 17,
   f64_dec 48048336393045454 17, f64_dec 4751751930373777 16, f64_dec 4699448252839603 16,
   f64_dec 4647897562504265 16, f64_dec 459707615642138 15, f64_dec 45469615747461584 17,
   f64_dec 44975325116275533 17, f64_dec 44487687341454885 17, f64_dec 4400651008423542 16,
   f64_dec 4353161032156369 16, f64_dec 43062813728845917 17, f64_dec 4259995411430347 16,
   f64_dec 4214287289976169 16, f64_dec 41691418643300326 17, f64_dec 4124544659971615 16,
   f64_dec 40804818315203273 17, f64_dec 4036940125305306 16, f64_dec 3993906844752314 16,
   f64_dec 39513698183329043 17, f64_dec 3909317369847974 16]"

definition fe_2 :: "float64 list" where
  "fe_2 =
  [f64_dec 38677382908413793 17, f64_dec 38266218149601006 17, f64_dec 37859575940958107 17,
   f64_dec 37457356761590244 17, f64_dec 3705946484351463 16, f64_dec 36665807978151443 17,
   f64_dec 3627629733548181 16, f64_dec 35890847294875006 17, f64_dec 35509375286678774 17,
   f64_dec 3513180164374836 16, f64_dec 34758049462163726 17, f64_dec 3438804447045027 16,
   f64_dec 34021714906678024 17, f64_dec 3365899140286778 16, f64_dec 3329980687618092 16,
   f64_dec 32944096426413655 17, f64_dec 32591797239355635 17, f64_dec 3224284849560893 16,
   f64_dec 31897191284495735 17, f64_dec 315547685227129 15, f64_dec 3121552487741797 16,
   f64_dec 30879406693456024 17, f64_dec 3054636192445903 16, f64_dec 3021634006756935 16,
   f64_dec 2988929210155818 16, f64_dec 29565170428126125 17, f64_dec 29243928816189263 17,
   f64_dec 28925522348967775 17, f64_dec 2860990737370769 16, f64_dec 2829704145387808 16,
   f64_dec 2798688332369729 16, f64_dec 2767939284485174 16]"

definition fe_3 :: "float64 list" where
  "fe_3 =
  [f64_dec 27374530965280297 17, f64_dec 27072259679906 14, f64_dec 26772541993204485 17,
   f64_dec 26475341883506226 17, f64_dec 26180624268936303 17, f64_dec 2588835497490163 16,
   f64_dec 25598500703041543 17, f64_dec 2531102900156295 16, f64_dec 25025908236886235 17,
   f64_dec 24743107566532765 17, f64_dec 24462596913189213 17, f64_dec 24184346939887724 17,
   f64_dec 23908329026244915 17, f64_dec 23634515245705962 17, f64_dec 23362878343743335 17,
   f64_dec 23093391716962744 17, f64_dec 22826029393071676 17, f64_dec 22560766011668415 17,
   f64_dec 22297576805812028 17, f64_dec 22036437584335958 17, f64_dec 21777324714870058 17,
   f64_dec 2152021510753787 16, f64_dec 21265086199297834 17, f64_dec 2101191593889883 16,
   f64_dec 20760682772422212 17, f64_dec 20511365629383782 17, f64_dec 2026394390937091 16,
   f64_dec 20018397469191135 17, f64_dec 19774706610509893 17, f64_dec 19532852067956327 17,
   f64_dec 19292814997677138 17, f64_dec 19054576966319545 17]"

definition fe_4 :: "float64 list" where
  "fe_4 =
  [f64_dec 18818119940425432 17, f64_dec 18583426276219714 17, f64_dec 1835047870977675 16,
   f64_dec 18119260347549634 17, f64_dec 17889754657247836 17, f64_dec 17661945459049494 17,
   f64_dec 17435816917135352 17, f64_dec 1721135353153201 16, f64_dec 16988540130252766 17,
   f64_dec 1676736186172502 16, f64_dec 165478041874936 15, f64_dec 16329852875190182 17,
   f64_dec 16113493991759203 17, f64_dec 1589871389693142 16, f64_dec 15685499236936523 17,
   f64_dec 15473836938446808 17, f64_dec 15263714202744288 17, f64_dec 15055118500103992 17,
   f64_dec 14848037564386682 17, f64_dec 14642459387834497 17, f64_dec 1443837221606348 16,
   f64_dec 14235764543247223 17, f64_dec 1403462510748625 16, f64_dec 1383494288635803 16,
   f64_dec 13636707092642894 17, f64_dec 1343990717022137 16, f64_dec 13244532790138763 17,
   f64_dec 13050573846833088 17, f64_dec 1285802045452283 16, f64_dec 12666862943751078 17,
   f64_dec 12477091858083104 17, f64_dec 12288697950954522 17]"

definition fe_5 :: "float64 list" where
  "fe_5 =
  [f64_dec 1210167218266749 16, f64_dec 11916005717532775 17, f64_dec 11731689921155564 17,
   f64_dec 1154871635786336 16, f64_dec 11367076788274438 17, f64_dec 11186763167005638 17,
   f64_dec 11007767640518545 17, f64_dec 10830082545103385 17, f64_dec 10653700405000172 17,
   f64_dec 10478613930657024 17, f64_dec 1030481601712578 16, f64_dec 10132299742595369 17,
   f64_dec 9961058367063715 17, f64_dec 9791085331149221 17, f64_dec 9622374255043283 17,
   f64_dec 9454918937605587 17, f64_dec 9288713355604357 17, f64_dec 9123751663104017 17,
   f64_dec 8960028191003284 17, f64_dec 8797537446727019 17, f64_dec 8636274114075689 17,
   f64_dec 847623305323681 16, f64_dec 8317409300963235 17, f64_dec 8159798070923742 17,
   f64_dec 800339475423199 16, f64_dec 7848194920160644 17, f64_dec 7694194317048052 17,
   f64_dec 754138887340584 16, f64_dec 7389774699236475 17, f64_dec 7239348087570872 17,
   f64_dec 7090105516237181 17, f64_dec 6942043649872875 17]"

definition fe_6 :: "float64 list" where
  "fe_6 =
  [f64_dec 6795159342193662 17, f64_dec 6649449638533979 17, f64_dec 6504911778675376 17,
   f64_dec 6361543199980735 17, f64_dec 6219341540854101 17, f64_dec 6078304644547963 17,
   f64_dec 5938430563342025 17, f64_dec 5799717563120064 17, f64_dec 5662164128374284 17,
   f64_dec 5525768967669701 17, f64_dec 5390531019604605 17, f64_dec 52564494593071664 18,
   f64_dec 51235237055126254 18, f64_dec 4991753428270636 17, f64_dec 4861138557337948 17,
   f64_dec 4731679291318155 17, f64_dec 4603376107617516 17, f64_dec 4476229773294327 17,
   f64_dec 43502413568888176 18, f64_dec 4225412241331624 17, f64_dec 4101744138041482 17,
   f64_dec 3979239102337412 17, f64_dec 3857899550307485 17, f64_dec 3737728277295936 17,
   f64_dec 3618728478193143 17, f64_dec 3500903769739742 17, f64_dec 33842582150874344 18,
   f64_dec 3268796350895954 17, f64_dec 3154523217289361 17, f64_dec 30414443910466608 18,
   f64_dec 29295660224637397 18, f64_dec 28188948763978632 18]"

definition fe_7 :: "float64 list" where
  "fe_7 =
  [f64_dec 270943837809558 16, f64_dec 2601204664513422 17, f64_dec 24942026419731787 18,
   f64_dec 23884420511558174 18, f64_dec 2283933540638524 17, f64_dec 21806887504283584 18,
   f64_dec 20787204072578117 18, f64_dec 1978042433800974 17, f64_dec 18786700744696024 18,
   f64_dec 17806200410911355 18, f64_dec 1683910682603994 17, f64_dec 15885621839973156 18,
   f64_dec 14945968011691148 18, f64_dec 14020391403181943 18, f64_dec 13109164931254991 18,
   f64_dec 12212592426255378 18, f64_dec 113310135978346 16, f64_dec 10464810181029982 18,
   f64_dec 9614413642502213 18, f64_dec 8780314985808977 18, f64_dec 7963077438017043 18,
   f64_dec 7163353183634991 18, f64_dec 6381905937319183 18, f64_dec 5619642207205489 18,
   f64_dec 48776559835424 16, f64_dec 41572951208338005 19, f64_dec 3460264777836907 18,
   f64_dec 27887987935740783 19, f64_dec 2145967743718907 18, f64_dec 15362997803015728 19,
   f64_dec 9672692823271743 19, f64_dec 4541343538414966 19]"

definition fe :: "float64 list" where
  "fe = fe_0 @ fe_1 @ fe_2 @ fe_3 @ fe_4 @ fe_5 @ fe_6 @ fe_7"

fun strictly_decreasing :: "float64 list \<Rightarrow> bool" where
  "strictly_decreasing (a # b # xs) = (f64_lt b a \<and> strictly_decreasing (b # xs))"
| "strictly_decreasing _ = True"

text \<open>
  \<open>ExpFloat64\<close> is a method of the generator \<open>Rand\<close>.  It uses the generator only through
  \<open>r.Uint64()\<close> and \<open>r.Float64()\<close>, and the standard library through \<open>math.Log\<close> and
  \<open>math.Exp\<close>.  None of the four is defined in math\_exp.go, so they are parameters of the
  model: \<open>'g\<close> is the generator state, and a method returns its result with the state
  after the call.
\<close>

record 'g env =
  Uint64 :: "'g \<Rightarrow> 64 word \<times> 'g"
  Float64 :: "'g \<Rightarrow> float64 \<times> 'g"
  math_Log :: "float64 \<Rightarrow> float64"
  math_Exp :: "float64 \<Rightarrow> float64"

text \<open>
  Each arithmetic operation of the source is one rounded binary64 operation of the
  model, in the order of the source (no fused multiply-add).

  The loop \<open>for { ... }\<close> has no bound: an iteration that rejects starts the next one.
  The result \<open>None\<close> stands for a run that never returns.
\<close>

partial_function (option) ExpFloat64 :: "'g env \<Rightarrow> 'g \<Rightarrow> (float64 \<times> 'g) option" where
  "ExpFloat64 R r =
     (let (v, r1) = Uint64 R r;
          j = drop_bit 11 v;
          i = v AND 0xFF;
          x = f64_mul (float64_of_uint64 j) (we ! unat i)
      in if j < ke ! unat i then Some (x, r1)
         else if i = 0 then
           (let (u, r2) = Float64 R r1 in Some (f64_sub re (math_Log R u), r2))
         else
           (let (u, r2) = Float64 R r1
            in if f64_lt (f64_add (fe ! unat i)
                            (f64_mul u (f64_sub (fe ! (unat i - 1)) (fe ! unat i))))
                         (math_Exp R (f64_neg x))
               then Some (x, r2)
               else ExpFloat64 R r2))"

subsection \<open>The state machine of one draw, as the specification words it\<close>

text \<open>
  The reading of a raw word as a pair of a layer and a magnitude: the layer is the value
  of the low 8 bits, the magnitude is the value of the bits from position \<open>k\<close> upwards.
\<close>

definition split_at :: "nat \<Rightarrow> 64 word \<Rightarrow> 64 word \<times> 64 word" where
  "split_at k v = (word_of_nat (unat v mod 2 ^ 8), word_of_nat (unat v div 2 ^ k))"

text \<open>
  One iteration, given the layer \<open>i\<close> and the magnitude \<open>j\<close> of the raw word and the
  generator after that draw: the candidate is \<open>x = j * we[i]\<close>; if \<open>j < ke[i]\<close> it is
  accepted at once; else in layer 0 the result is the tail value \<open>re - ln(uniform())\<close>;
  else the candidate is accepted if
  \<open>fe[i] + uniform() * (fe[i-1] - fe[i]) < exp(-x)\<close>, and the draw restarts otherwise.
\<close>

datatype 'g verdict = Accept float64 'g | Restart 'g

definition candidate :: "64 word \<Rightarrow> 64 word \<Rightarrow> float64" where
  "candidate i j = f64_mul (float64_of_uint64 j) (we ! unat i)"

definition tail_value :: "'g env \<Rightarrow> float64 \<Rightarrow> float64" where
  "tail_value R u = f64_sub re (math_Log R u)"

definition wedge_test :: "'g env \<Rightarrow> 64 word \<Rightarrow> float64 \<Rightarrow> float64 \<Rightarrow> bool" where
  "wedge_test R i u x =
     f64_lt (f64_add (fe ! unat i) (f64_mul u (f64_sub (fe ! (unat i - 1)) (fe ! unat i))))
            (math_Exp R (f64_neg x))"

definition zig_iteration :: "'g env \<Rightarrow> 64 word \<Rightarrow> 64 word \<Rightarrow> 'g \<Rightarrow> 'g verdict" where
  "zig_iteration R i j r1 =
     (if j < ke ! unat i then Accept (candidate i j) r1
      else if i = 0 then Accept (tail_value R (fst (Float64 R r1))) (snd (Float64 R r1))
      else if wedge_test R i (fst (Float64 R r1)) (candidate i j)
           then Accept (candidate i j) (snd (Float64 R r1))
           else Restart (snd (Float64 R r1)))"


subsection \<open>Generators to run the model on\<close>

text \<open>
  A generator that counts the calls made to it: the state carries the number of
  \<open>Uint64\<close> calls and the number of \<open>Float64\<close> calls next to the state of the
  generator it wraps.
\<close>

definition counting :: "'g env \<Rightarrow> ('g \<times> nat \<times> nat) env" where
  "counting R =
     \<lparr>Uint64 = (\<lambda>(g, nu, nf). (fst (Uint64 R g), (snd (Uint64 R g), nu + 1, nf))),
      Float64 = (\<lambda>(g, nu, nf). (fst (Float64 R g), (snd (Float64 R g), nu, nf + 1))),
      math_Log = math_Log R,
      math_Exp = math_Exp R\<rparr>"

text \<open>
  A generator that replays a script: the raw words and the uniform values it will return,
  in order (zero once a list is used up).  The two library functions are left as the
  identity; no evaluation below reaches them.
\<close>

definition script_env :: "(64 word list \<times> float64 list) env" where
  "script_env =
     \<lparr>Uint64 = (\<lambda>(ws, us). case ws of [] \<Rightarrow> (0, ([], us)) | w # ws' \<Rightarrow> (w, (ws', us))),
      Float64 = (\<lambda>(ws, us). case us of [] \<Rightarrow> (f64_zero, (ws, [])) | u # us' \<Rightarrow> (u, (ws, us'))),
      math_Log = (\<lambda>x. x),
      math_Exp = (\<lambda>x. x)\<rparr>"

section \<open>Operations of the generator outside math\_exp.go\<close>

text \<open>
  The bounded samplers, \<open>Shuffle\<close> and \<open>Read\<close> are methods of \<open>Rand\<close> that the test
  files call; their code is not among the source files.  They are modelled from the
  specification.  The core engine enters as the parameter \<open>nxt\<close>, the operation
  \<open>next_u64\<close> that returns one raw word and the advanced engine state.
\<close>

text \<open>
  Modelled from the spec: the error kinds of section 7; the code that raises them is not
  among the source files.
\<close>

datatype error = DomainError | InvalidArgument | FormatError

text \<open>
  Modelled from the spec: the core engine's \<open>next_u64\<close> (section 4.1), whose code is not
  among the source files, as a function from the engine state to a raw word and the
  next state.
\<close>

type_synonym 'g engine = "'g \<Rightarrow> 64 word \<times> 'g"

text \<open>An engine to run the operations on: it replays a list of raw words, then zeros.\<close>

definition replay :: "64 word list engine" where
  "replay ws = (case ws of [] \<Rightarrow> (0, []) | w # ws' \<Rightarrow> (w, ws'))"

text \<open>The next \<open>k\<close> raw words of an engine.\<close>

fun raw_words :: "'g engine \<Rightarrow> nat \<Rightarrow> 'g \<Rightarrow> 64 word list" where
  "raw_words nxt 0 g = []"
| "raw_words nxt (Suc k) g = fst (nxt g) # raw_words nxt k (snd (nxt g))"

subsection \<open>Bounded sampler\<close>

text \<open>
  Modelled from the spec: the widths 32, 63 and 64 of the bounded sampler (section 4.3),
  whose code is not among the source files, each with the largest value of its range.
\<close>

datatype width = W32 | W63 | W64

fun width_max :: "width \<Rightarrow> nat" where
  "width_max W32 = 2 ^ 32 - 1"
| "width_max W63 = 2 ^ 63 - 1"
| "width_max W64 = 2 ^ 64 - 1"

text \<open>
  Modelled from the spec: the integer derivation layer (section 4.2), whose code is not
  among the source files.  One raw word gives one value of the width: the top 32 bits,
  the word with its sign bit cleared, or the word itself.
\<close>

fun derive :: "width \<Rightarrow> 64 word \<Rightarrow> nat" where
  "derive W32 v = unat (drop_bit 32 v)"
| "derive W63 v = unat (take_bit 63 v)"
| "derive W64 v = unat v"

text \<open>
  Modelled from the spec: \<open>max_multiple_of_n\<close> (section 4.3), the largest value within the
  range of the width that is an exact multiple of \<open>n\<close>; its code is not among the source
  files.
\<close>

definition max_multiple_of :: "width \<Rightarrow> nat \<Rightarrow> nat" where
  "max_multiple_of w n = (width_max w div n) * n"

text \<open>
  Modelled from the spec: the rejection loop of \<open>uniform_below\<close> (section 4.3), whose code
  is not among the source files: draw a full-width value, redraw while it falls in
  \<open>[max_multiple_of_n, width_max]\<close>, then reduce modulo \<open>n\<close>.  The loop has no bound;
  \<open>None\<close> stands for a run that never returns.
\<close>

partial_function (option) redraw :: "'g engine \<Rightarrow> width \<Rightarrow> nat \<Rightarrow> 'g \<Rightarrow> (nat \<times> 'g) option" where
  "redraw nxt w n g =
     (if max_multiple_of w n \<le> derive w (fst (nxt g)) then redraw nxt w n (snd (nxt g))
      else Some (derive w (fst (nxt g)) mod n, snd (nxt g)))"

text \<open>
  Modelled from the spec: the test for a bound that is a power of two (section 4.3); its
  code is not among the source files.
\<close>

definition power_of_two :: "nat \<Rightarrow> bool" where
  "power_of_two n = (0 < n \<and> n AND (n - 1) = 0)"

text \<open>
  Modelled from the spec: \<open>uniform_below(n, width)\<close> (sections 4.3 and 7), whose code is not
  among the source files.  A bound \<open>n \<le> 0\<close> fails with \<open>DomainError\<close>; a power of two
  takes a single masked draw; any other bound goes through the rejection loop.  The
  bound is an \<open>int\<close> so that the signed variants are covered.  The generator state is
  returned with the result, also when the call fails.
\<close>

definition uniform_below :: "'g engine \<Rightarrow> width \<Rightarrow> int \<Rightarrow> 'g \<Rightarrow> ((error + nat) \<times> 'g) option" where
  "uniform_below nxt w n g =
     (if n \<le> 0 then Some (Inl DomainError, g)
      else if power_of_two (nat n)
        then Some (Inr (derive w (fst (nxt g)) AND (nat n - 1)), snd (nxt g))
      else map_option (\<lambda>(x, g'). (Inr x, g')) (redraw nxt w (nat n) g))"

subsection \<open>Shuffle\<close>

text \<open>
  Modelled from the spec: the Fisher--Yates loop of \<open>shuffle\<close> (section 4.6), whose code is
  not among the source files: from index \<open>i\<close> down to 1, element \<open>i\<close> is swapped with an
  index drawn uniformly from \<open>[0, i]\<close> by the bounded sampler.  The callback \<open>swap\<close> acts
  on the caller's data \<open>'s\<close>.
\<close>

fun shuffle_from :: "'g engine \<Rightarrow> (nat \<Rightarrow> nat \<Rightarrow> 's \<Rightarrow> 's) \<Rightarrow> nat \<Rightarrow> 'g \<Rightarrow> 's
    \<Rightarrow> ((error + unit) \<times> 'g \<times> 's) option" where
  "shuffle_from nxt swap 0 g s = Some (Inr (), g, s)"
| "shuffle_from nxt swap (Suc i) g s =
     (case uniform_below nxt W63 (int (Suc i) + 1) g of
        None \<Rightarrow> None
      | Some (Inl e, g') \<Rightarrow> Some (Inl e, g', s)
      | Some (Inr j, g') \<Rightarrow> shuffle_from nxt swap i g' (swap (Suc i) j s))"

text \<open>
  Modelled from the spec: \<open>shuffle(n, swap)\<close> (sections 4.6 and 7), whose code is not among
  the source files.  A negative \<open>n\<close> fails with \<open>InvalidArgument\<close>; otherwise the loop
  starts at the last index, \<open>n - 1\<close>.
\<close>

definition shuffle :: "'g engine \<Rightarrow> (nat \<Rightarrow> nat \<Rightarrow> 's \<Rightarrow> 's) \<Rightarrow> int \<Rightarrow> 'g \<Rightarrow> 's
    \<Rightarrow> ((error + unit) \<times> 'g \<times> 's) option" where
  "shuffle nxt swap n g s =
     (if n < 0 then Some (Inl InvalidArgument, g, s)
      else shuffle_from nxt swap (nat (n - 1)) g s)"

text \<open>A callback that records every call made to it.\<close>

definition record_swap :: "nat \<Rightarrow> nat \<Rightarrow> (nat \<times> nat) list \<Rightarrow> (nat \<times> nat) list" where
  "record_swap i j calls = calls @ [(i, j)]"

subsection \<open>Byte stream\<close>

text \<open>
  Modelled from the spec: the generator as \<open>read\<close> sees it (section 3), whose declaration
  is not among the source files: the engine and the leftover byte buffer, the bytes of
  the last raw word that no call has consumed yet.
\<close>

record 'g rand =
  engine :: 'g
  leftover :: "8 word list"

text \<open>
  Modelled from the spec: the bytes of a raw word in stream order (section 4.7); the code
  is not among the source files.  The order is fixed as least significant byte first.
\<close>

definition word_bytes :: "64 word \<Rightarrow> 8 word list" where
  "word_bytes v = map (\<lambda>k. ucast (drop_bit (8 * k) v)) [0..<8]"

text \<open>
  Modelled from the spec: drawing \<open>k\<close> whole raw words and storing all their bytes
  (section 4.7); the code is not among the source files.
\<close>

fun draw_words :: "'g engine \<Rightarrow> nat \<Rightarrow> 'g \<Rightarrow> 8 word list \<times> 'g" where
  "draw_words nxt 0 g = ([], g)"
| "draw_words nxt (Suc k) g =
     (word_bytes (fst (nxt g)) @ fst (draw_words nxt k (snd (nxt g))),
      snd (draw_words nxt k (snd (nxt g))))"

text \<open>
  Modelled from the spec: \<open>read(buffer)\<close> (section 4.7), whose code is not among the source
  files; \<open>n\<close> is the length of the buffer and the result is its new content.  The
  leftover buffer is drained first; then whole raw words are drawn and all their bytes
  stored; of a last word that is only needed in part, the unused tail is kept as the
  new leftover buffer.
\<close>

definition read :: "'g engine \<Rightarrow> nat \<Rightarrow> 'g rand \<Rightarrow> 8 word list \<times> 'g rand" where
  "read nxt n st =
     (if n \<le> length (leftover st)
        then (take n (leftover st), st\<lparr>leftover := drop n (leftover st)\<rparr>)
      else
        (let need = n - length (leftover st);
             whole = draw_words nxt (need div 8) (engine st)
         in if need mod 8 = 0
              then (leftover st @ fst whole, st\<lparr>engine := snd whole, leftover := []\<rparr>)
            else (leftover st @ fst whole @ take (need mod 8) (word_bytes (fst (nxt (snd whole)))),
                  st\<lparr>engine := snd (nxt (snd whole)),
                     leftover := drop (need mod 8) (word_bytes (fst (nxt (snd whole))))\<rparr>)))"

text \<open>
  \<open>n\<close> calls of \<open>read\<close> with a buffer of length 1, the bytes put together, as the test
  \<open>TestReadByOneByte\<close> reads through \<open>iotest.OneByteReader\<close>.
\<close>

fun read_by_one_byte :: "'g engine \<Rightarrow> nat \<Rightarrow> 'g rand \<Rightarrow> 8 word list \<times> 'g rand" where
  "read_by_one_byte nxt 0 st = ([], st)"
| "read_by_one_byte nxt (Suc n) st =
     (fst (read nxt 1 st) @ fst (read_by_one_byte nxt n (snd (read nxt 1 st))),
      snd (read_by_one_byte nxt n (snd (read nxt 1 st))))"

section \<open>Evaluating the model\<close>

text \<open>
  \<open>bitlen\<close> is unfolded one digit at a time, and only on an argument whose sign is known.
\<close>

lemma bitlen_nonpos: "n \<le> 0 \<Longrightarrow> bitlen n = 0"
  by (subst bitlen.simps) simp

lemma bitlen_pos: "0 < n \<Longrightarrow> bitlen n = 1 + bitlen (n div 2)"
  by (subst bitlen.simps) simp

lemmas f64_eval =
  f64_dec_def f64_round_dyadic_def f64_round_frac_def f64_round_at_def f64_carry_def
  f64_finish_def round_half_even_div_def ties_even_def ilog2_frac_def ilog2_fix_def
  scale_le_def bitlen_nonpos bitlen_pos

lemma ke_length: "length ke = 256"
  by (simp add: ke_def)

lemma we_length: "length we = 256"
  by (simp add: we_def)

lemma ke_0: "ke ! 0 = 0x1c5214272497c5"
  by (simp add: ke_def)

lemma we_0: "we ! 0 = Finite 4896041874709955 (- 102)"
  unfolding we_def nth_Cons_0 by (simp add: f64_eval)

lemma ke_2: "ke ! 2 = 0x137d5bd79c3125"
  by (simp add: ke_def)

lemma f64_zero_of_uint64: "float64_of_uint64 0 = f64_zero"
  by (simp add: float64_of_uint64_def f64_round_frac_def f64_zero_def)

lemma f64_zero_mul: "f64_mul f64_zero (Finite m e) = f64_zero"
  by (simp add: f64_zero_def f64_round_dyadic_def f64_round_frac_def)

lemma f64_one_of_uint64: "float64_of_uint64 1 = Finite (2 ^ 52) (- 52)"
  by (simp add: float64_of_uint64_def f64_eval)

lemma candidate_0_1: "candidate 0 1 = Finite 4896041874709955 (- 102)"
  by (simp add: candidate_def we_0 f64_one_of_uint64 f64_eval)

section \<open>Rounding keeps a positive number positive\<close>

text \<open>
  A number of at least \<open>2 ^ - 1074\<close>, the smallest positive binary64, is rounded to a
  positive value.  The difference of two binary64 values is a multiple of
  \<open>2 ^ - 1074\<close>, so \<open>b < a\<close> gives \<open>0 < a - b\<close> in binary64 arithmetic as well.
\<close>

lemma bitlen_1: "bitlen 1 = 1"
  by (simp add: bitlen_pos bitlen_nonpos)

lemma bitlen_bounds:
  "0 < n \<Longrightarrow> 1 \<le> bitlen n \<and> 2 ^ nat (bitlen n - 1) \<le> n \<and> n < 2 ^ nat (bitlen n)"
proof (induction n rule: bitlen.induct)
  case (1 n)
  have unfold: "bitlen n = 1 + bitlen (n div 2)"
    using "1.prems" by (subst bitlen.simps) simp
  show ?case
  proof (cases "n div 2 = 0")
    case True
    with "1.prems" have "n = 1" by presburger
    then show ?thesis
      by (simp add: bitlen_1)
  next
    case False
    with "1.prems" have pos: "0 < n div 2" by simp
    with "1.IH" "1.prems"
    have IH: "1 \<le> bitlen (n div 2)" "2 ^ nat (bitlen (n div 2) - 1) \<le> n div 2"
      "n div 2 < 2 ^ nat (bitlen (n div 2))"
      by simp_all
    have exp: "nat (bitlen (n div 2)) = Suc (nat (bitlen (n div 2) - 1))"
      using IH(1) by simp
    have "(2::int) ^ nat (bitlen (n div 2)) = 2 * 2 ^ nat (bitlen (n div 2) - 1)"
      by (subst exp) simp
    also have "\<dots> \<le> 2 * (n div 2)"
      using IH(2) by simp
    also have "\<dots> \<le> n"
      by simp
    finally have lower: "2 ^ nat (bitlen n - 1) \<le> n"
      by (simp add: unfold)
    have "n < 2 * (n div 2) + 2"
      by presburger
    also have "\<dots> \<le> 2 * 2 ^ nat (bitlen (n div 2))"
      using IH(3) by simp
    also have "\<dots> = 2 ^ nat (bitlen n)"
      using IH(1) by (simp add: unfold nat_add_distrib)
    finally have upper: "n < 2 ^ nat (bitlen n)" .
    from IH(1) lower upper show ?thesis
      by (simp add: unfold)
  qed
qed

lemma scale_le_pred:
  assumes "0 \<le> d" "0 \<le> a" "scale_le d e a"
  shows "scale_le d (e - 1) a"
proof -
  consider "1 \<le> e" | "e = 0" | "e < 0" by linarith
  then show ?thesis
  proof cases
    case 1
    then have "nat e = Suc (nat (e - 1))" by simp
    then have "d * 2 ^ nat (e - 1) \<le> d * 2 ^ nat e"
      using assms(1) by (simp add: mult_left_mono)
    with 1 assms(3) show ?thesis
      by (simp add: scale_le_def)
  next
    case 2
    with assms show ?thesis
      by (simp add: scale_le_def)
  next
    case 3
    then have "nat (- (e - 1)) = Suc (nat (- e))" by simp
    then have "a * 2 ^ nat (- e) \<le> a * 2 ^ nat (- (e - 1))"
      using assms(2) by (simp add: mult_left_mono)
    with 3 assms(3) show ?thesis
      by (simp add: scale_le_def)
  qed
qed

lemma scale_le_down:
  assumes "0 \<le> d" "0 \<le> a" "scale_le d e a"
  shows "scale_le d (e - int k) a"
proof (induction k)
  case 0
  from assms(3) show ?case by simp
next
  case (Suc k)
  from scale_le_pred [OF assms(1,2) Suc.IH] show ?case
    by (simp add: algebra_simps)
qed

lemma scale_le_mono:
  assumes "0 \<le> d" "0 \<le> a" "scale_le d e a" "e' \<le> e"
  shows "scale_le d e' a"
  using scale_le_down [OF assms(1-3), of "nat (e - e')"] assms(4) by simp

lemma scale_le_bitlen:
  assumes "0 < a" "0 < d"
  shows "scale_le d (bitlen a - bitlen d - 1) a"
proof -
  from bitlen_bounds [OF assms(1)]
  have a: "1 \<le> bitlen a" "2 ^ nat (bitlen a - 1) \<le> a" by simp_all
  from bitlen_bounds [OF assms(2)]
  have d: "1 \<le> bitlen d" "d < 2 ^ nat (bitlen d)" by simp_all
  let ?k = "bitlen a - bitlen d - 1"
  show ?thesis
  proof (cases "0 \<le> ?k")
    case True
    then have split: "nat (bitlen a - 1) = nat (bitlen d) + nat ?k"
      using d(1) by simp
    have "d * 2 ^ nat ?k \<le> 2 ^ nat (bitlen d) * 2 ^ nat ?k"
      using d(2) by (intro mult_right_mono) simp_all
    also have "\<dots> = 2 ^ nat (bitlen a - 1)"
      by (simp only: split power_add)
    also have "\<dots> \<le> a"
      by (rule a(2))
    finally show ?thesis
      using True by (simp add: scale_le_def)
  next
    case False
    then have split: "nat (bitlen d) = nat (bitlen a - 1) + nat (- ?k)"
      using a(1) by simp
    have "d \<le> 2 ^ nat (bitlen d)"
      using d(2) by simp
    also have "\<dots> = 2 ^ nat (bitlen a - 1) * 2 ^ nat (- ?k)"
      by (simp only: split power_add)
    also have "\<dots> \<le> a * 2 ^ nat (- ?k)"
      using a(2) by (intro mult_right_mono) simp_all
    finally show ?thesis
      using False by (simp add: scale_le_def)
  qed
qed

lemma scale_le_ulp:
  assumes "0 < a" "0 < d" "d \<le> a * 2 ^ 1074"
  shows "scale_le d (max (ilog2_frac a d - 52) (- 1074)) a"
proof (cases "ilog2_frac a d - 52 \<le> - 1074")
  case True
  then have "max (ilog2_frac a d - 52) (- 1074) = - 1074" by simp
  with assms(3) show ?thesis
    by (simp add: scale_le_def)
next
  case False
  then have m: "max (ilog2_frac a d - 52) (- 1074) = ilog2_frac a d - 52" by simp
  have "ilog2_frac a d \<le> bitlen a - bitlen d"
    by (simp add: ilog2_frac_def ilog2_fix_def)
  then have "ilog2_frac a d - 52 \<le> bitlen a - bitlen d - 1" by simp
  with scale_le_mono [OF _ _ scale_le_bitlen [OF assms(1,2)]] assms(1,2) show ?thesis
    unfolding m by simp
qed

lemma round_half_even_div_pos:
  assumes "0 < d" "d \<le> n"
  shows "0 < round_half_even_div n d"
proof -
  from assms have "0 < n div d"
    by (simp add: pos_imp_zdiv_pos_iff)
  moreover have "q \<le> ties_even q r d" for q r
    by (simp add: ties_even_def)
  ultimately show ?thesis
    unfolding round_half_even_div_def by (rule less_le_trans)
qed

lemma f64_carry_pos: "0 < m \<Longrightarrow> f64_lt f64_zero (f64_carry 1 m ex)"
  by (simp add: f64_carry_def f64_finish_def f64_zero_def)

lemma f64_round_at_pos:
  assumes "0 < a" "0 < d" "scale_le d ex a"
  shows "f64_lt f64_zero (f64_round_at 1 a d ex)"
proof (cases "ex \<le> 0")
  case True
  with assms(3) have "d \<le> a * 2 ^ nat (- ex)"
    by (cases "ex = 0") (simp_all add: scale_le_def)
  with assms(2) have "0 < round_half_even_div (a * 2 ^ nat (- ex)) d"
    by (rule round_half_even_div_pos)
  with True show ?thesis
    by (simp add: f64_round_at_def f64_carry_pos)
next
  case False
  with assms(3) have "d * 2 ^ nat ex \<le> a"
    by (simp add: scale_le_def)
  moreover from assms(2) have "0 < d * 2 ^ nat ex"
    by simp
  ultimately have "0 < round_half_even_div a (d * 2 ^ nat ex)"
    by (intro round_half_even_div_pos)
  with False show ?thesis
    by (simp add: f64_round_at_def f64_carry_pos)
qed

lemma f64_round_frac_pos:
  assumes "0 < n" "0 < d" "d \<le> n * 2 ^ 1074"
  shows "f64_lt f64_zero (f64_round_frac n d)"
  using f64_round_at_pos [OF assms(1,2) scale_le_ulp [OF assms]] assms(1)
  by (simp add: f64_round_frac_def)

lemma f64_round_dyadic_pos:
  assumes "0 < m" "- 1074 \<le> e"
  shows "f64_lt f64_zero (f64_round_dyadic m e)"
proof (cases "0 \<le> e")
  case True
  have "(1::int) * 1 \<le> m * 2 ^ nat e"
    using assms(1) by (intro mult_mono) simp_all
  then have "(1::int) * 1 \<le> m * 2 ^ nat e * 2 ^ 1074"
    by (intro mult_mono) simp_all
  then have "(1::int) \<le> m * 2 ^ nat e * 2 ^ 1074"
    by (simp only: mult_1)
  with True assms(1) show ?thesis
    by (simp add: f64_round_dyadic_def f64_round_frac_pos)
next
  case False
  with assms(2) have "nat (- e) \<le> 1074" by simp
  then have "(2::int) ^ nat (- e) \<le> 2 ^ 1074"
    by (intro power_increasing) simp_all
  also have "\<dots> \<le> m * 2 ^ 1074"
    using assms(1) by simp
  finally have "(2::int) ^ nat (- e) \<le> m * 2 ^ 1074" .
  with False assms(1) show ?thesis
    by (simp add: f64_round_dyadic_def f64_round_frac_pos)
qed

lemma f64_sub_pos:
  assumes "f64_lt (Finite m2 e2) (Finite m1 e1)" "- 1074 \<le> e1" "- 1074 \<le> e2"
  shows "f64_lt f64_zero (f64_sub (Finite m1 e1) (Finite m2 e2))"
proof -
  let ?e = "min e1 e2"
  from assms(1) have "0 < m1 * 2 ^ nat (e1 - ?e) + - m2 * 2 ^ nat (e2 - ?e)"
    by (simp add: min.commute)
  moreover from assms(2,3) have "- 1074 \<le> ?e"
    by simp
  ultimately have "f64_lt f64_zero
      (f64_round_dyadic (m1 * 2 ^ nat (e1 - ?e) + - m2 * 2 ^ nat (e2 - ?e)) ?e)"
    by (rule f64_round_dyadic_pos)
  then show ?thesis
    by (simp add: f64_sub_def)
qed

section \<open>The draw as a state machine\<close>

text \<open>
  The body of the loop is one iteration of the state machine, whatever stands in the
  place of the next iteration.
\<close>

lemma iteration_body:
  "(let (v, r1) = Uint64 R r;
        j = drop_bit 11 v;
        i = v AND 0xFF;
        x = f64_mul (float64_of_uint64 j) (we ! unat i)
    in if j < ke ! unat i then Some (x, r1)
       else if i = 0 then
         (let (u, r2) = Float64 R r1 in Some (f64_sub re (math_Log R u), r2))
       else
         (let (u, r2) = Float64 R r1
          in if f64_lt (f64_add (fe ! unat i)
                          (f64_mul u (f64_sub (fe ! (unat i - 1)) (fe ! unat i))))
                       (math_Exp R (f64_neg x))
             then Some (x, r2)
             else f R r2)) =
   (case zig_iteration R (fst (Uint64 R r) AND 0xFF) (drop_bit 11 (fst (Uint64 R r)))
           (snd (Uint64 R r)) of
      Accept y r' \<Rightarrow> Some (y, r')
    | Restart r' \<Rightarrow> f R r')"
  by (simp add: zig_iteration_def candidate_def tail_value_def wedge_test_def Let_def
        split: prod.splits)

lemma ExpFloat64_unfold:
  "ExpFloat64 R r =
     (case zig_iteration R (fst (Uint64 R r) AND 0xFF) (drop_bit 11 (fst (Uint64 R r)))
             (snd (Uint64 R r)) of
        Accept y r' \<Rightarrow> Some (y, r')
      | Restart r' \<Rightarrow> ExpFloat64 R r')"
  by (subst ExpFloat64.simps) (rule iteration_body)




section \<open>Layer and magnitude of a raw word\<close>

lemma split_and: "word_of_nat (unat v mod 2 ^ 8) = (v AND 0xFF :: 64 word)"
proof -
  have "(v AND 0xFF) = take_bit 8 v"
    by (simp add: take_bit_eq_mask mask_eq_exp_minus_1)
  also have "\<dots> = v mod 2 ^ 8"
    by (simp only: take_bit_eq_mod)
  also have "\<dots> = word_of_nat (unat v mod unat (2 ^ 8 :: 64 word))"
    by (rule word_arith_nat_mod)
  finally show ?thesis by simp
qed

lemma split_drop: "word_of_nat (unat v div 2 ^ 11) = (drop_bit 11 v :: 64 word)"
  by (simp add: drop_bit_eq_div word_arith_nat_div)

text \<open>
  Claim C2, as amended.  The low 8 bits of the raw word select the layer \<open>i\<close>, and the
  upper 53 bits, the word shifted right by 11, form the magnitude \<open>j\<close>; the three bits
  8 to 10 between them are not used.  So \<open>i < 2 ^ 8\<close> and \<open>j < 2 ^ 53\<close>.
\<close>

theorem layer_and_magnitude:
  "ExpFloat64 R r =
     (case zig_iteration R (fst (split_at 11 (fst (Uint64 R r))))
             (snd (split_at 11 (fst (Uint64 R r)))) (snd (Uint64 R r)) of
        Accept y r' \<Rightarrow> Some (y, r')
      | Restart r' \<Rightarrow> ExpFloat64 R r')
   \<and> unat (fst (split_at 11 v)) < 2 ^ 8 \<and> unat (snd (split_at 11 v)) < 2 ^ 53"
proof -
  have "unat v div 2 ^ 11 < 2 ^ 53"
    using unsigned_less [of v, where ?'a = nat] by (simp add: less_mult_imp_div_less)
  then have magnitude: "unat (snd (split_at 11 v)) < 2 ^ 53"
    by (simp add: split_at_def unat_of_nat)
  have "unat v mod 2 ^ 8 mod 2 ^ 64 \<le> unat v mod 2 ^ 8"
    by (rule mod_less_eq_dividend)
  also have "\<dots> < 2 ^ 8"
    by simp
  finally have layer: "unat (fst (split_at 11 v)) < 2 ^ 8"
    by (simp add: split_at_def unat_of_nat)
  have "split_at 11 (fst (Uint64 R r)) = (fst (Uint64 R r) AND 0xFF, drop_bit 11 (fst (Uint64 R r)))"
    unfolding split_at_def split_and split_drop ..
  with ExpFloat64_unfold [of R r] layer magnitude show ?thesis
    by simp
qed

text \<open>
  Claim C2, as stated, fails.  If the magnitude were formed by all the bits above the low
  eight, the raw word \<open>0x100\<close> would give \<open>i = 0\<close>, \<open>j = 1\<close> and the candidate
  \<open>1 * we[0]\<close>.  \<open>ExpFloat64\<close> returns the candidate of \<open>j = 0\<close> on that word.
\<close>

theorem remaining_high_bits_counterexample:
  "ExpFloat64 script_env ([0x100], []) \<noteq>
     (case zig_iteration script_env (fst (split_at 8 0x100)) (snd (split_at 8 0x100)) ([], []) of
        Accept y r' \<Rightarrow> Some (y, r')
      | Restart r' \<Rightarrow> ExpFloat64 script_env r')"
proof -
  have "ExpFloat64 script_env ([0x100], []) = Some (f64_zero, ([], []))"
    by (subst ExpFloat64_unfold)
       (simp add: script_env_def zig_iteration_def candidate_def ke_0 we_0 f64_zero_of_uint64
          f64_zero_mul)
  moreover have "split_at 8 0x100 = (0, 1)"
    by (simp add: split_at_def)
  moreover have "zig_iteration script_env 0 1 ([], []) = Accept (candidate 0 1) ([], [])"
    by (simp add: zig_iteration_def ke_0)
  ultimately show ?thesis
    by (simp add: candidate_0_1 f64_zero_def)
qed


section \<open>The fast path\<close>

text \<open>
  Claim C10.  When the drawn word satisfies \<open>j < ke[i]\<close>, \<open>ExpFloat64\<close> returns the
  candidate after exactly one call of \<open>Uint64\<close> and no call of \<open>Float64\<close>: on the
  counting generator the first counter goes up by one, the second stays, and the
  wrapped generator is in the state that one \<open>Uint64\<close> call leaves.
\<close>

theorem fast_path_one_word:
  "drop_bit 11 (fst (Uint64 R r)) < ke ! unat (fst (Uint64 R r) AND 0xFF) \<Longrightarrow>
   ExpFloat64 (counting R) (r, nu, nf) =
     Some (candidate (fst (Uint64 R r) AND 0xFF) (drop_bit 11 (fst (Uint64 R r))),
           (snd (Uint64 R r), nu + 1, nf))"
  by (subst ExpFloat64.simps) (simp add: counting_def candidate_def)

theorem fast_path_one_word_witness:
  "drop_bit 11 (fst (Uint64 script_env ([0x802], []))) < ke ! unat (fst (Uint64 script_env ([0x802], [])) AND 0xFF)
   \<and> ExpFloat64 (counting script_env) (([0x802], []), 0, 0) = Some (candidate 2 1, (([], []), 1, 0))"
proof -
  have v: "Uint64 script_env ([0x802], []) = (0x802, ([], []))"
    by (simp add: script_env_def)
  have h: "drop_bit 11 (fst (Uint64 script_env ([0x802], []))) < ke ! unat (fst (Uint64 script_env ([0x802], [])) AND 0xFF)"
    by (simp add: v ke_2)
  from fast_path_one_word [OF h, of 0 0] show ?thesis
    using h by (simp add: v)
qed

section \<open>The smallest result\<close>

text \<open>
  Claim C1.  The claim is that a result is never exactly 0.  On the raw word 0 the
  layer is \<open>i = 0\<close> and the magnitude is \<open>j = 0 < ke[0]\<close>, so the fast path returns
  \<open>float64(0) * we[0]\<close>, which is exactly 0.
\<close>

theorem ExpFloat64_zero_word:
  "fst (Uint64 R r) = 0 \<Longrightarrow> ExpFloat64 R r = Some (f64_zero, snd (Uint64 R r))"
  by (subst ExpFloat64_unfold)
     (simp add: zig_iteration_def candidate_def ke_0 we_0 f64_zero_of_uint64 f64_zero_mul)

theorem ExpFloat64_zero_word_witness:
  "fst (Uint64 script_env ([0], [])) = 0
   \<and> ExpFloat64 script_env ([0], []) = Some (f64_zero, ([], []))"
  using ExpFloat64_zero_word [of script_env "([0], [])"]
  by (simp add: script_env_def)

section \<open>The table \<open>fe\<close>\<close>

text \<open>The conversion of the decimal constants, block by block.\<close>

lemma fe_0_exact:
  "fe_0 =
  [Finite 4503599627370496 (- 52), Finite 8450047063101767 (- 53),
   Finite 8110712081743868 (- 53), Finite 7851614612978481 (- 53),
   Finite 7636172929400626 (- 53), Finite 7448893405199086 (- 53),
   Finite 7281614897114529 (- 53), Finite 7129447141845567 (- 53),
   Finite 6989197979406901 (- 53), Finite 6858652468561341 (- 53),
   Finite 6736201694589227 (- 53), Finite 6620634558354563 (- 53),
   Finite 6511013044767591 (- 53), Finite 6406593495439562 (- 53),
   Finite 6306774761036810 (- 53), Finite 6211062829920106 (- 53),
   Finite 6119045968211065 (- 53), Finite 6030376797112183 (- 53),
   Finite 5944759083895198 (- 53), Finite 5861937817712818 (- 53),
   Finite 5781691625824364 (- 53), Finite 5703826890350888 (- 53),
   Finite 5628173122374530 (- 53), Finite 5554579280351510 (- 53),
   Finite 5482910807809500 (- 53), Finite 5413047225967387 (- 53),
   Finite 5344880159480417 (- 53), Finite 5278311703858983 (- 53),
   Finite 5213253065061056 (- 53), Finite 5149623417852070 (- 53),
   Finite 5087348941471436 (- 53), Finite 5026362000112525 (- 53)]"
  by (simp add: fe_0_def f64_eval)

lemma fe_1_exact:
  "fe_1 =
  [Finite 4966600442526505 (- 53), Finite 4908007000272882 (- 53),
   Finite 4850528768169631 (- 53), Finite 4794116753638288 (- 53),
   Finite 4738725484109358 (- 53), Finite 4684312663609389 (- 53),
   Finite 4630838871210880 (- 53), Finite 4578267295278411 (- 53),
   Finite 4526563498455847 (- 53), Finite 8951390418322812 (- 54),
   Finite 8851264272057856 (- 54), Finite 8752691604570707 (- 54),
   Finite 8655618795019670 (- 54), Finite 8559995289195351 (- 54),
   Finite 8465773360134146 (- 54), Finite 8372907892220178 (- 54),
   Finite 8281356186021248 (- 54), Finite 8191077781477905 (- 54),
   Finite 8102034297381016 (- 54), Finite 8014189285342054 (- 54),
   Finite 7927508096689544 (- 54), Finite 7841957760921275 (- 54),
   Finite 7757506874510222 (- 54), Finite 7674125499007093 (- 54),
   Finite 7591785067507557 (- 54), Finite 7510458298660588 (- 54),
   Finite 7430119117488454 (- 54), Finite 7350742582370810 (- 54),
   Finite 7272304817616792 (- 54), Finite 7194782951111598 (- 54),
   Finite 7118155056578837 (- 54), Finite 7042400100048137 (- 54)]"
  by (simp add: fe_1_def f64_eval)

lemma fe_2_exact:
  "fe_2 =
  [Finite 6967497890159934 (- 54), Finite 6893429031976848 (- 54),
   Finite 6820174884004157 (- 54), Finite 6747717518151262 (- 54),
   Finite 6676039682392099 (- 54), Finite 6605124765905640 (- 54),
   Finite 6534956766498288 (- 54), Finite 6465520260128418 (- 54),
   Finite 6396800372369825 (- 54), Finite 6328782751665572 (- 54),
   Finite 6261453544237033 (- 54), Finite 6194799370524795 (- 54),
   Finite 6128807303048816 (- 54), Finite 6063464845584882 (- 54),
   Finite 5998759913563115 (- 54), Finite 5934680815602169 (- 54),
   Finite 5871216236099872 (- 54), Finite 5808355218807509 (- 54),
   Finite 5746087151320817 (- 54), Finite 5684401750426083 (- 54),
   Finite 5623289048244561 (- 54), Finite 5562739379122822 (- 54),
   Finite 5502743367220720 (- 54), Finite 5443291914752221 (- 54),
   Finite 5384376190837813 (- 54), Finite 5325987620930161 (- 54),
   Finite 5268117876777571 (- 54), Finite 5210758866892329 (- 54),
   Finite 5153902727493374 (- 54), Finite 5097541813894912 (- 54),
   Finite 5041668692314587 (- 54), Finite 4986276132076635 (- 54)]"
  by (simp add: fe_2_def f64_eval)

lemma fe_3_exact:
  "fe_3 =
  [Finite 4931357098187138 (- 54), Finite 4876904744260079 (- 54),
   Finite 4822912405774267 (- 54), Finite 4769373593642605 (- 54),
   Finite 4716281988076340 (- 54), Finite 4663631432728084 (- 54),
   Finite 4611415929098451 (- 54), Finite 4559629631192109 (- 54),
   Finite 4508266840409963 (- 54), Finite 8914644001330005 (- 55),
   Finite 8813579387420287 (- 55), Finite 8713329269334172 (- 55),
   Finite 8613883335491825 (- 55), Finite 8515231524291494 (- 55),
   Finite 8417364016254777 (- 55), Finite 8320271226498745 (- 55),
   Finite 8223943797518847 (- 55), Finite 8128372592267426 (- 55),
   Finite 8033548687513605 (- 55), Finite 7939463367471089 (- 55),
   Finite 7846108117681207 (- 55), Finite 7753474619139238 (- 55),
   Finite 7661554742652736 (- 55), Finite 7570340543421197 (- 55),
   Finite 7479824255827020 (- 55), Finite 7389998288428224 (- 55),
   Finite 7300855219143957 (- 55), Finite 7212387790624294 (- 55),
   Finite 7124588905796259 (- 55), Finite 7037451623578491 (- 55),
   Finite 6950969154757334 (- 55), Finite 6865134858017531 (- 55)]"
  by (simp add: fe_3_def f64_eval)

lemma fe_4_exact:
  "fe_4 =
  [Finite 6779942236121062 (- 55), Finite 6695384932228015 (- 55),
   Finite 6611456726353663 (- 55), Finite 6528151531956283 (- 55),
   Finite 6445463392650476 (- 55), Finite 6363386479041066 (- 55),
   Finite 6281915085672877 (- 55), Finite 6201043628091954 (- 55),
   Finite 6120766640014006 (- 55), Finite 6041078770596085 (- 55),
   Finite 5961974781807689 (- 55), Finite 5883449545897722 (- 55),
   Finite 5805498042953878 (- 55), Finite 5728115358551238 (- 55),
   Finite 5651296681487002 (- 55), Finite 5575037301598469 (- 55),
   Finite 5499332607661514 (- 55), Finite 5424178085366960 (- 55),
   Finite 5349569315372399 (- 55), Finite 5275501971427125 (- 55),
   Finite 5201971818568001 (- 55), Finite 5128974711384185 (- 55),
   Finite 5056506592348775 (- 55), Finite 4984563490215529 (- 55),
   Finite 4913141518478971 (- 55), Finite 4842236873896242 (- 55),
   Finite 4771845835069220 (- 55), Finite 4701964761085491 (- 55),
   Finite 4632590090216899 (- 55), Finite 4563718338674440 (- 55),
   Finite 8990692198836883 (- 56), Finite 8854940082045978 (- 56)]"
  by (simp add: fe_4_def f64_eval)

lemma fe_5_exact:
  "fe_5 =
  [Finite 8720173813187393 (- 56), Finite 8586387025476049 (- 56),
   Finite 8453573497174784 (- 56), Finite 8321727149740957 (- 56),
   Finite 8190842046074332 (- 56), Finite 8060912388865373 (- 56),
   Finite 7931932519043252 (- 56), Finite 7803896914323091 (- 56),
   Finite 7676800187852108 (- 56), Finite 7550637086954602 (- 56),
   Finite 7425402491975869 (- 56), Finite 7301091415225388 (- 56),
   Finite 7177699000019825 (- 56), Finite 7055220519826618 (- 56),
   Finite 6933651377509181 (- 56), Finite 6812987104675003 (- 56),
   Finite 6693223361128181 (- 56), Finite 6574355934428191 (- 56),
   Finite 6456380739557045 (- 56), Finite 6339293818697246 (- 56),
   Finite 6223091341123317 (- 56), Finite 6107769603210045 (- 56),
   Finite 5993325028560948 (- 56), Finite 5879754168260905 (- 56),
   Finite 5767053701257308 (- 56), Finite 5655220434874639 (- 56),
   Finite 5544251305467807 (- 56), Finite 5434143379220247 (- 56),
   Finite 5324893853093329 (- 56), Finite 5216500055934319 (- 56),
   Finite 5108959449750923 (- 56), Finite 5002269631161152 (- 56)]"
  by (simp add: fe_5_def f64_eval)

lemma fe_6_exact:
  "fe_6 =
  [Finite 4896428333028243 (- 56), Finite 4791433426291281 (- 56),
   Finite 4687282922003260 (- 56), Finite 4583974973589528 (- 56),
   Finite 8963015758681720 (- 57), Finite 8759760170313780 (- 57),
   Finite 8558180375114467 (- 57), Finite 8358273873958925 (- 57),
   Finite 8160038482770245 (- 57), Finite 7963472340394469 (- 57),
   Finite 7768573917190528 (- 57), Finite 7575342024392832 (- 57),
   Finite 7383775824310580 (- 57), Finite 7193874841435210 (- 57),
   Finite 7005638974535531 (- 57), Finite 6819068509829483 (- 57),
   Finite 6634164135331997 (- 57), Finite 6450926956490576 (- 57),
   Finite 6269358513233984 (- 57), Finite 6089460798575307 (- 57),
   Finite 5911236278928875 (- 57), Finite 5734687916321560 (- 57),
   Finite 5559819192703230 (- 57), Finite 5386634136589486 (- 57),
   Finite 5215137352302605 (- 57), Finite 5045334052115157 (- 57),
   Finite 4877230091645859 (- 57), Finite 4710832008910418 (- 57),
   Finite 4546147067493102 (- 57), Finite 8766366608758929 (- 58),
   Finite 8443899166159977 (- 58), Finite 8124911305562891 (- 58)]"
  by (simp add: fe_6_def f64_eval)

lemma fe_7_exact:
  "fe_7 =
  [Finite 7809424428783728 (- 58), Finite 7497461989002908 (- 58),
   Finite 7189049656945225 (- 58), Finite 6884215508212072 (- 58),
   Finite 6582990235237526 (- 58), Finite 6285407388057720 (- 58),
   Finite 5991503648981585 (- 58), Finite 5701319147385021 (- 58),
   Finite 5414897822293378 (- 58), Finite 5132287842269744 (- 58),
   Finite 4853542094528349 (- 58), Finite 4578718758339310 (- 58),
   Finite 8615763963922382 (- 59), Finite 8082205375866714 (- 59),
   Finite 7556919078340909 (- 59), Finite 7040080217614267 (- 59),
   Finite 6531884622968055 (- 59), Finite 6032552349669069 (- 59),
   Finite 5542332121313124 (- 59), Finite 5061506982180466 (- 59),
   Finite 4590401610569723 (- 59), Finite 8258783930506701 (- 60),
   Finite 7357836595513403 (- 60), Finite 6479006348883495 (- 60),
   Finite 5623554475500294 (- 60), Finite 4793034945806409 (- 60),
   Finite 7978827348003608 (- 61), Finite 6430532202266372 (- 61),
   Finite 4948264719852326 (- 61), Finite 7084932216929831 (- 62),
   Finite 8921484450725047 (- 63), Finite 8377300200393544 (- 64)]"
  by (simp add: fe_7_def f64_eval)

lemmas fe_blocks =
  fe_def fe_0_exact fe_1_exact fe_2_exact fe_3_exact fe_4_exact fe_5_exact fe_6_exact fe_7_exact

lemma fe_length: "length fe = 256"
  by (simp add: fe_blocks)

lemma fe_decreasing: "strictly_decreasing fe"
  by (simp add: fe_blocks)

lemma fe_format: "list_all f64_format fe"
  by (simp add: fe_blocks)

lemma decreasing_nth:
  "strictly_decreasing xs \<Longrightarrow> list_all f64_format xs \<Longrightarrow> 1 \<le> i \<Longrightarrow> i < length xs \<Longrightarrow>
   f64_lt (xs ! i) (xs ! (i - 1)) \<and> f64_lt f64_zero (f64_sub (xs ! (i - 1)) (xs ! i))"
proof (induction xs arbitrary: i rule: strictly_decreasing.induct)
  case (1 a b xs)
  show ?case
  proof (cases "i = 1")
    case True
    from "1.prems"(2) obtain m1 e1 m2 e2
      where a: "a = Finite m1 e1" "- 1074 \<le> e1" and b: "b = Finite m2 e2" "- 1074 \<le> e2"
      by (cases a; cases b) simp_all
    from "1.prems"(1) have lt: "f64_lt b a" by simp
    with a b have "f64_lt f64_zero (f64_sub a b)"
      by (simp add: f64_sub_pos)
    with lt True show ?thesis by simp
  next
    case False
    with "1.prems"(3) obtain k where k: "i = Suc k" "1 \<le> k"
      by (cases i) auto
    with "1.prems" have "f64_lt ((b # xs) ! k) ((b # xs) ! (k - 1))
        \<and> f64_lt f64_zero (f64_sub ((b # xs) ! (k - 1)) ((b # xs) ! k))"
      by (intro "1.IH") simp_all
    with k show ?thesis by simp
  qed
qed simp_all

text \<open>
  Claim C9.  The table \<open>fe\<close> is strictly decreasing: \<open>fe[0]\<close> is 1, the value of
  \<open>float64(1)\<close>, and \<open>fe[i-1] > fe[i]\<close> for every \<open>i\<close> from 1 to 255, so
  the coefficient \<open>fe[i-1] - fe[i]\<close> of the rejection test, computed in binary64, is
  strictly positive.
\<close>

theorem fe_strictly_decreasing:
  "fe ! 0 = float64_of_uint64 1
   \<and> (\<forall>i. 1 \<le> i \<and> i \<le> 255 \<longrightarrow>
          f64_lt (fe ! i) (fe ! (i - 1))
          \<and> f64_lt f64_zero (f64_sub (fe ! (i - 1)) (fe ! i)))"
proof -
  from decreasing_nth [OF fe_decreasing fe_format]
  have "1 \<le> i \<and> i \<le> 255 \<longrightarrow>
          f64_lt (fe ! i) (fe ! (i - 1))
          \<and> f64_lt f64_zero (f64_sub (fe ! (i - 1)) (fe ! i))" for i
    by (simp add: fe_length)
  moreover have "fe ! 0 = float64_of_uint64 1"
    by (simp add: fe_def fe_0_exact f64_one_of_uint64)
  ultimately show ?thesis
    by blast
qed

theorem fe_strictly_decreasing_witness:
  "(1::nat) \<le> 1 \<and> (1::nat) \<le> 255
   \<and> f64_lt (fe ! 1) (fe ! (1 - 1)) \<and> f64_lt f64_zero (f64_sub (fe ! (1 - 1)) (fe ! 1))"
  using conjunct2 [OF fe_strictly_decreasing, rule_format, of 1] by simp


section \<open>Bounded sampler and shuffle\<close>

text \<open>
  Claim C7.  For each width, \<open>uniform_below\<close> with the bound \<open>n = 0\<close> fails with
  \<open>DomainError\<close> and returns the generator state it was given: no raw word is drawn,
  and the raw words that follow are those of a generator on which the call was never
  made.
\<close>

theorem uniform_below_zero:
  "uniform_below nxt w 0 g = Some (Inl DomainError, g)
   \<and> map_option (\<lambda>(res, g'). raw_words nxt k g') (uniform_below nxt w 0 g) = Some (raw_words nxt k g)"
  by (simp add: uniform_below_def)

text \<open>
  Claim C8.  For \<open>n = 0\<close> and \<open>n = 1\<close>, \<open>shuffle(n, swap)\<close> succeeds without a call of
  \<open>swap\<close> and without drawing a raw word: the caller's data and the generator state
  come back as they went in, whatever the callback is.
\<close>

theorem shuffle_small:
  "0 \<le> n \<Longrightarrow> n \<le> 1 \<Longrightarrow> shuffle nxt swap n g s = Some (Inr (), g, s)"
  by (simp add: shuffle_def)

theorem shuffle_small_witness:
  "(0::int) \<le> 1 \<and> (1::int) \<le> 1
   \<and> shuffle replay record_swap 1 [7, 8] [] = Some (Inr (), [7, 8], [])
   \<and> shuffle replay record_swap 0 [7, 8] [] = Some (Inr (), [7, 8], [])"
  using shuffle_small [of 1 replay record_swap "[7, 8]" "[]"]
    shuffle_small [of 0 replay record_swap "[7, 8]" "[]"]
  by simp

section \<open>Byte stream\<close>

lemma length_word_bytes: "length (word_bytes v) = 8"
  by (simp add: word_bytes_def)

text \<open>
  The model of \<open>read\<close> does what section 4.7 asks of it: the buffer is filled, and
  the leftover buffer stays shorter than a word.
\<close>

lemma length_draw_words: "length (fst (draw_words nxt k g)) = 8 * k"
  by (induction k arbitrary: g) (simp_all add: length_word_bytes)

lemma read_fills: "length (fst (read nxt n st)) = n"
proof (cases "n \<le> length (leftover st)")
  case True
  then show ?thesis by (simp add: read_def)
next
  case False
  let ?need = "n - length (leftover st)"
  have split: "8 * (?need div 8) + ?need mod 8 = ?need"
    by simp
  have n: "n = length (leftover st) + ?need"
    using False by simp
  show ?thesis
  proof (cases "?need mod 8 = 0")
    case True
    with False have "fst (read nxt n st) = leftover st @ fst (draw_words nxt (?need div 8) (engine st))"
      by (simp add: read_def Let_def)
    then have "length (fst (read nxt n st)) = length (leftover st) + (8 * (?need div 8) + ?need mod 8)"
      using True by (simp add: length_draw_words)
    also have "\<dots> = length (leftover st) + ?need"
      by (simp only: split)
    finally show ?thesis
      using False by simp
  next
    case rem: False
    let ?whole = "draw_words nxt (?need div 8) (engine st)"
    from False rem
    have "fst (read nxt n st) =
        leftover st @ fst ?whole @ take (?need mod 8) (word_bytes (fst (nxt (snd ?whole))))"
      by (simp add: read_def Let_def)
    moreover have "min 8 (?need mod 8) = ?need mod 8"
      by (simp add: min_def)
    ultimately
    have "length (fst (read nxt n st)) = length (leftover st) + (8 * (?need div 8) + ?need mod 8)"
      by (simp add: length_draw_words length_word_bytes)
    also have "\<dots> = length (leftover st) + ?need"
      by (simp only: split)
    finally show ?thesis
      using False by simp
  qed
qed

lemma read_leftover:
  assumes "length (leftover st) \<le> 7"
  shows "length (leftover (snd (read nxt n st))) \<le> 7"
proof (cases "n \<le> length (leftover st)")
  case True
  with assms show ?thesis by (simp add: read_def)
next
  case False
  then show ?thesis
    by (cases "(n - length (leftover st)) mod 8 = 0")
       (simp_all add: read_def Let_def length_word_bytes)
qed


text \<open>Reading \<open>n + 1\<close> bytes is reading one byte and then \<open>n\<close> bytes.\<close>

lemma read_0: "read nxt 0 st = ([], st)"
  by (simp add: read_def)

lemma read_Suc_leftover:
  assumes "leftover st = l # ls"
  shows "read nxt (Suc n) st =
    (fst (read nxt 1 st) @ fst (read nxt n (snd (read nxt 1 st))),
     snd (read nxt n (snd (read nxt 1 st))))"
  using assms by (simp add: read_def Let_def)

lemma read_1_empty:
  assumes "leftover st = []"
  shows "read nxt 1 st =
    (take 1 (word_bytes (fst (nxt (engine st)))),
     st\<lparr>engine := snd (nxt (engine st)),
        leftover := drop 1 (word_bytes (fst (nxt (engine st))))\<rparr>)"
  using assms by (simp add: read_def Let_def)

lemma read_Suc_empty:
  assumes "leftover st = []"
  shows "read nxt (Suc n) st =
    (fst (read nxt 1 st) @ fst (read nxt n (snd (read nxt 1 st))),
     snd (read nxt n (snd (read nxt 1 st))))"
proof -
  let ?v = "fst (nxt (engine st))"
  let ?g = "snd (nxt (engine st))"
  obtain b bs where wb: "word_bytes ?v = b # bs" and bs: "length bs = 7"
    using length_word_bytes [of ?v] by (cases "word_bytes ?v") auto
  let ?st1 = "st\<lparr>engine := ?g, leftover := bs\<rparr>"
  have one: "read nxt 1 st = ([b], ?st1)"
    using read_1_empty [OF assms, of nxt] wb by simp
  consider "n \<le> 6" | "n = 7" | "8 \<le> n" by linarith
  then show ?thesis
  proof cases
    case 1
    then have "Suc n div 8 = 0" "Suc n mod 8 = Suc n" by simp_all
    with 1 assms wb bs show ?thesis
      unfolding one by (simp add: read_def Let_def)
  next
    case 2
    have "draw_words nxt (Suc 0) (engine st) = (b # bs, ?g)"
      by (simp add: wb)
    then have whole: "read nxt (Suc 7) st = (b # bs, st\<lparr>engine := ?g, leftover := []\<rparr>)"
      using assms by (simp add: read_def)
    have rest: "read nxt 7 ?st1 = (bs, ?st1\<lparr>leftover := []\<rparr>)"
      using bs by (simp add: read_def)
    show ?thesis
      unfolding one 2 whole rest fst_conv snd_conv by simp
  next
    case 3
    then have e: "Suc n = (n - 7) + 8"
      by simp
    have "Suc n div 8 = Suc ((n - 7) div 8)" "Suc n mod 8 = (n - 7) mod 8"
      unfolding e by simp_all
    with 3 assms wb bs show ?thesis
      unfolding one by (simp add: read_def Let_def)
  qed
qed

lemma read_Suc:
  "read nxt (Suc n) st =
    (fst (read nxt 1 st) @ fst (read nxt n (snd (read nxt 1 st))),
     snd (read nxt n (snd (read nxt 1 st))))"
  by (cases "leftover st") (simp_all only: read_Suc_empty read_Suc_leftover)

text \<open>
  Claim C6.  Reading \<open>n\<close> bytes one byte at a time gives the same bytes as one call
  with a buffer of length \<open>n\<close>, from any state of the generator (so from the state any
  seed gives), and leaves the generator in the same state.
\<close>

theorem read_by_one_byte_eq_read: "read_by_one_byte nxt n st = read nxt n st"
proof (induction n arbitrary: st)
  case 0
  show ?case by (simp add: read_0)
next
  case (Suc n)
  show ?case by (simp add: Suc.IH read_Suc [of nxt n st])
qed

end
